theory Spec2Isabelle
  imports Main "HOL-Library.Char_ord" "HOL-Library.List_Lexorder"
begin

section \<open>Strings\<close>

text \<open>
  A Go string is a sequence of bytes, here a \<open>string\<close> (a list of 8-bit characters).
  Go compares strings byte by byte, a proper prefix being smaller; this is the order that
  \<open>Char_ord\<close> and \<open>List_Lexorder\<close> put on \<open>string\<close>, and it is the order written
  \<open>\<le>\<close> below.
\<close>

text \<open>\<open>strings.Join\<close>.\<close>

fun Join :: "string list \<Rightarrow> string \<Rightarrow> string" where
  "Join [] sep = []"
| "Join [x] sep = x"
| "Join (x # y # ys) sep = x @ sep @ Join (y # ys) sep"

text \<open>
  \<open>strings.Split\<close> for a separator of one byte, which is what both call sites pass
  (\<open>" "\<close> and \<open>","\<close>). Splitting the empty string gives one empty field.
\<close>

fun Split :: "string \<Rightarrow> char \<Rightarrow> string list" where
  "Split [] sep = [[]]"
| "Split (c # cs) sep =
     (if c = sep then [] # Split cs sep
      else (case Split cs sep of [] \<Rightarrow> [[c]] | f # fs \<Rightarrow> (c # f) # fs))"

text \<open>\<open>strings.Contains\<close>.\<close>

fun Contains :: "string \<Rightarrow> string \<Rightarrow> bool" where
  "Contains [] sub = (sub = [])"
| "Contains (c # cs) sub = (take (length sub) (c # cs) = sub \<or> Contains cs sub)"

text \<open>
  \<open>strings.TrimSpace\<close>. On a string of ASCII bytes Go trims the white space of its ASCII
  table: tab, line feed, vertical tab, form feed, carriage return and space. On any other
  string the result depends on Go's Unicode tables (it also trims white space such as
  \<open>U+0085\<close> and \<open>U+00A0\<close>); there the result is the parameter \<open>beyond\<close>.
\<close>

definition asciiSpace :: "char \<Rightarrow> bool" where
  "asciiSpace c = (c \<in> set [CHR 0x09, CHR 0x0A, CHR 0x0B, CHR 0x0C, CHR 0x0D, CHR 0x20])"

definition TrimSpace :: "(string \<Rightarrow> string) \<Rightarrow> string \<Rightarrow> string" where
  "TrimSpace beyond s =
     (if list_all (\<lambda>c. (of_char c :: nat) < 0x80) s
      then rev (dropWhile asciiSpace (rev (dropWhile asciiSpace s)))
      else beyond s)"

text \<open>
  The verb \<open>%q\<close> of \<open>fmt.Sprintf\<close>, that is \<open>strconv.Quote\<close>: the string between double
  quotes, with the double quote and the backslash escaped by a backslash, the control
  characters written as \<open>\a \b \f \n \r \t \v\<close> or \<open>\xNN\<close>, and printable characters
  kept. The definition follows Go on the strings whose bytes are all below \<open>0x7f\<close>. For
  any other string (one that holds DEL, a UTF-8 sequence or an invalid byte) the escaping
  depends on Go's Unicode tables; there the result is the parameter \<open>beyond\<close>.
\<close>

definition lowerhex :: "nat \<Rightarrow> char" where
  "lowerhex n = ''0123456789abcdef'' ! (n mod 16)"

definition appendEscapedRune :: "char \<Rightarrow> string" where
  "appendEscapedRune c =
     (if c = CHR 0x22 \<or> c = CHR 0x5C then [CHR 0x5C, c]
      else if (0x20::nat) \<le> of_char c \<and> (of_char c :: nat) < 0x7f then [c]
      else if c = CHR 0x07 then [CHR 0x5C, CHR ''a'']
      else if c = CHR 0x08 then [CHR 0x5C, CHR ''b'']
      else if c = CHR 0x0C then [CHR 0x5C, CHR ''f'']
      else if c = CHR 0x0A then [CHR 0x5C, CHR ''n'']
      else if c = CHR 0x0D then [CHR 0x5C, CHR ''r'']
      else if c = CHR 0x09 then [CHR 0x5C, CHR ''t'']
      else if c = CHR 0x0B then [CHR 0x5C, CHR ''v'']
      else [CHR 0x5C, CHR ''x'', lowerhex (of_char c div 16), lowerhex (of_char c mod 16)])"

definition Quote :: "(string \<Rightarrow> string) \<Rightarrow> string \<Rightarrow> string" where
  "Quote beyond s =
     (if list_all (\<lambda>c. (of_char c :: nat) < 0x7f) s
      then [CHR 0x22] @ concat (map appendEscapedRune s) @ [CHR 0x22]
      else beyond s)"

section \<open>The request (library/tweet/tweet.go)\<close>

record Meta =
  NewestID :: string
  OldestID :: string
  ResultCount :: int
  NextToken :: string

text \<open>
  A tweet is a Go map from field names to strings. \<open>Data\<close> is a Go slice: beside its
  elements it keeps the elements of its backing array beyond its length, here \<open>spare\<close>,
  which come back when the slice is made longer again.
\<close>

record Tweets =
  Data :: "(string \<rightharpoonup> string) list"
  spare :: "(string \<rightharpoonup> string) list"
  Meta :: Meta

text \<open>
  \<open>queryParams\<close> is a \<open>url.Values\<close>, a map from a key to a list of values; \<open>Set\<close>
  replaces the list by a single value.
\<close>

record Req =
  schemeHost :: string
  endpoint :: string
  queryParams :: "string \<rightharpoonup> string list"
  usersFilter :: "string list"
  keywordFilter :: "string list"
  tweets :: Tweets

definition zeroTweets :: Tweets where
  "zeroTweets = \<lparr>Data = [], spare = [],
     Meta = \<lparr>NewestID = [], OldestID = [], ResultCount = 0, NextToken = []\<rparr>\<rparr>"

definition setQueryParam :: "Req \<Rightarrow> string \<Rightarrow> string \<Rightarrow> Req" where
  "setQueryParam r k v = r\<lparr>queryParams := (queryParams r)(k \<mapsto> [v])\<rparr>"

definition SetSinceTweetID :: "Req \<Rightarrow> string \<Rightarrow> Req" where
  "SetSinceTweetID r v = r\<lparr>queryParams := (queryParams r)(''since_id'' \<mapsto> [v])\<rparr>"

definition parseQuery :: "Req \<Rightarrow> Req" where
  "parseQuery r =
     (let uf = (if length (usersFilter r) > 0
                then ''(from:'' @ Join (usersFilter r) '' OR '' @ '')''
                else []);
          kf = ''('' @ Join (keywordFilter r) '' OR '' @ '')''
      in if length uf > 0 \<or> length kf > 0
         then setQueryParam r ''query'' (kf @ uf)
         else r)"

definition NewReq :: "(Req \<Rightarrow> Req) list \<Rightarrow> Req" where
  "NewReq opts =
     fold (\<lambda>opt req. opt req) opts
       (setQueryParam
         (setQueryParam
           \<lparr>schemeHost = ''https://api.twitter.com'',
            endpoint = ''/2/tweets/search/recent'',
            queryParams = Map.empty,
            usersFilter = [],
            keywordFilter = [],
            tweets = zeroTweets\<rparr>
           ''tweet.fields'' ''created_at,text'')
         ''max_results'' ''10'')"

definition WithEndpoint :: "string \<Rightarrow> Req \<Rightarrow> Req" where
  "WithEndpoint e r = r\<lparr>endpoint := e\<rparr>"

definition WithUsers :: "string list \<Rightarrow> Req \<Rightarrow> Req" where
  "WithUsers users r = r\<lparr>usersFilter := users\<rparr>"

text \<open>
  \<open>WithKeywords\<close> walks the keywords, replaces a keyword that \<open>strings.Split(w, " ")\<close>
  cuts into more than one field by its \<open>%q\<close> form, and appends it. Its first argument
  is the parameter of \<open>Quote\<close>.
\<close>

definition escapeKeyword :: "(string \<Rightarrow> string) \<Rightarrow> string \<Rightarrow> string" where
  "escapeKeyword beyond w = (if length (Split w (CHR 0x20)) > 1 then Quote beyond w else w)"

definition WithKeywords :: "(string \<Rightarrow> string) \<Rightarrow> string list \<Rightarrow> Req \<Rightarrow> Req" where
  "WithKeywords beyond keywords =
     (let escapedKeywords = fold (\<lambda>w acc. acc @ [escapeKeyword beyond w]) keywords []
      in (\<lambda>r. r\<lparr>keywordFilter := escapedKeywords\<rparr>))"

text \<open>The value of the \<open>query\<close> parameter, when it is set.\<close>

definition queryOf :: "Req \<Rightarrow> string list option" where
  "queryOf r = queryParams r ''query''"

section \<open>The world outside the program\<close>

text \<open>
  What the program reads from its environment at one moment: the two environment variables,
  the answer of the HTTP transport to a request (given its scheme and host, its endpoint,
  its query parameters and the bearer token), the JSON decoder of the standard library, the
  answer of the Slack client, whether the home directory is found and the database file
  opens, and what \<open>%q\<close> and \<open>strings.TrimSpace\<close> give on text beyond ASCII.
\<close>

datatype error =
    AuthenticationError
  | NewRequestError
  | TransportError
  | HomeDirError
  | OpenError
  | InvalidID
  | InvalidBucket
  | NoLatestTweetID
  | NoLatestSearchTerms
  | PostMessageError

datatype crash = NilPointerDereference | Exit int

text \<open>
  A response: its status code, the bytes \<open>io.ReadAll\<close> got from its body, and whether
  reading stopped on an error.
\<close>

record http_response =
  StatusCode :: nat
  Body :: string
  ReadError :: bool

datatype http_outcome = NewRequestFails | DoFails | Responds http_response

record SlackArgs =
  ChannelID :: string
  Attachment :: "string option"

record world =
  TWITTER_BEARER_TOKEN :: "string option"
  SLACK_ACCESS_TOKEN :: "string option"
  http :: "string \<Rightarrow> string \<Rightarrow> (string \<rightharpoonup> string list) \<Rightarrow> string \<Rightarrow> http_outcome"
  json_valid :: "string \<Rightarrow> bool"
  json_decode :: "string \<Rightarrow> Tweets \<Rightarrow> Tweets"
  PostMessage :: "SlackArgs \<Rightarrow> string \<Rightarrow> bool"
  homedir_ok :: bool
  db_open_ok :: bool
  quote_beyond :: "string \<Rightarrow> string"
  trim_beyond :: "string \<Rightarrow> string"

text \<open>
  \<open>json.Unmarshal(body, &r.tweets)\<close>: the decoder first checks that the whole input is
  valid JSON and touches nothing when it is not; otherwise it decodes into the value it was
  given, whose slices, maps and fields it uses again. The only caller drops the error, so
  the model returns the value alone.
\<close>

definition Unmarshal :: "world \<Rightarrow> string \<Rightarrow> Tweets \<Rightarrow> Tweets" where
  "Unmarshal w body t = (if \<not> json_valid w body then t else json_decode w body t)"

text \<open>
  \<open>Get\<close> returns a pointer to the request's own \<open>tweets\<close> field, or nil with an error.
  The model returns the request as \<open>Get\<close> leaves it and, on success, the value the
  pointer refers to.
\<close>

definition Get :: "world \<Rightarrow> Req \<Rightarrow> (error + Tweets) \<times> Req" where
  "Get w r =
     (case TWITTER_BEARER_TOKEN w of
        None \<Rightarrow> (Inl AuthenticationError, r)
      | Some token \<Rightarrow>
          (let r1 = parseQuery r in
           case http w (schemeHost r1) (endpoint r1) (queryParams r1) token of
             NewRequestFails \<Rightarrow> (Inl NewRequestError, r1)
           | DoFails \<Rightarrow> (Inl TransportError, r1)
           | Responds resp \<Rightarrow>
               (let r2 = r1\<lparr>tweets := Unmarshal w (Body resp) (tweets r1)\<rparr>
                in (Inr (tweets r2), r2))))"

section \<open>The cache on disk\<close>

text \<open>
  The bolt database: buckets by name, each a map from keys to values. Every operation finds
  the home directory, opens the file, runs one transaction and closes the file.
\<close>

type_synonym bucket = "string \<rightharpoonup> string"
type_synonym boltdb = "string \<rightharpoonup> bucket"

definition CreateBucketIfNotExists :: "boltdb \<Rightarrow> string \<Rightarrow> bucket" where
  "CreateBucketIfNotExists d name = (case d name of None \<Rightarrow> Map.empty | Some b \<Rightarrow> b)"

definition StoreLatestSearchTerms :: "world \<Rightarrow> Req \<Rightarrow> boltdb \<Rightarrow> error option \<times> boltdb" where
  "StoreLatestSearchTerms w r d =
     (if \<not> homedir_ok w then (Some HomeDirError, d)
      else if \<not> db_open_ok w then (Some OpenError, d)
      else (let kw = keywordFilter r;
                b = CreateBucketIfNotExists d ''meta''
            in (None, d(''meta'' \<mapsto> b(''keywords'' \<mapsto> Join kw '','')))))"

definition GetLatestSearchTerms :: "world \<Rightarrow> boltdb \<Rightarrow> string list \<times> error option" where
  "GetLatestSearchTerms w d =
     (if \<not> homedir_ok w then ([], Some HomeDirError)
      else if \<not> db_open_ok w then ([], Some OpenError)
      else (case d ''meta'' of
              None \<Rightarrow> ([], Some InvalidBucket)
            | Some b \<Rightarrow>
                (case b ''keywords'' of
                   None \<Rightarrow> ([], Some NoLatestSearchTerms)
                 | Some prevBytes \<Rightarrow> (Split prevBytes (CHR '',''), None))))"

definition StoreLatestTweetID :: "world \<Rightarrow> Req \<Rightarrow> boltdb \<Rightarrow> error option \<times> boltdb" where
  "StoreLatestTweetID w r d =
     (if \<not> homedir_ok w then (Some HomeDirError, d)
      else if \<not> db_open_ok w then (Some OpenError, d)
      else (let id = NewestID (Meta (tweets r)) in
            if id = [] then (Some InvalidID, d)
            else (let b = CreateBucketIfNotExists d ''meta'' in
                  case b ''newest'' of
                    None \<Rightarrow> (None, d(''meta'' \<mapsto> b(''newest'' \<mapsto> id)))
                  | Some prevNewestID \<Rightarrow>
                      if prevNewestID \<ge> id then (None, d(''meta'' \<mapsto> b))
                      else (None, d(''meta'' \<mapsto> b(''newest'' \<mapsto> id))))))"

definition GetLatestTweetID :: "world \<Rightarrow> boltdb \<Rightarrow> string \<times> error option" where
  "GetLatestTweetID w d =
     (if \<not> homedir_ok w then ([], Some HomeDirError)
      else if \<not> db_open_ok w then ([], Some OpenError)
      else (case d ''meta'' of
              None \<Rightarrow> ([], Some InvalidBucket)
            | Some b \<Rightarrow>
                (case b ''newest'' of
                   None \<Rightarrow> ([], Some NoLatestTweetID)
                 | Some prev \<Rightarrow> (prev, None))))"

text \<open>The cursor a database holds: the value under \<open>newest\<close> in the bucket \<open>meta\<close>.\<close>

definition cursor :: "boltdb \<Rightarrow> string option" where
  "cursor d = (case d ''meta'' of None \<Rightarrow> None | Some b \<Rightarrow> b ''newest'')"

text \<open>
  A run of calls of \<open>StoreLatestTweetID\<close>, the request holding the newest ids
  \<open>v1, ..., vn\<close> in turn.
\<close>

definition withNewestID :: "Req \<Rightarrow> string \<Rightarrow> Req" where
  "withNewestID r v = r\<lparr>tweets := (tweets r)\<lparr>Meta := (Meta (tweets r))\<lparr>NewestID := v\<rparr>\<rparr>\<rparr>"

fun setCursors :: "world \<Rightarrow> Req \<Rightarrow> string list \<Rightarrow> boltdb \<Rightarrow> boltdb" where
  "setCursors w r [] d = d"
| "setCursors w r (v # vs) d = setCursors w r vs (snd (StoreLatestTweetID w (withNewestID r v) d))"

text \<open>
  What one call does to the cursor: an empty id leaves it, a first id is stored, and a later
  id is stored when the stored one is not greater or equal.
\<close>

definition advance :: "string option \<Rightarrow> string \<Rightarrow> string option" where
  "advance c v = (if v = [] then c else (case c of None \<Rightarrow> Some v | Some p \<Rightarrow> Some (max p v)))"

text \<open>
  The numeric reading of an id, the order the specification has in mind beside the
  lexicographic one: the value of a string of decimal digits.
\<close>

definition numericID :: "string \<Rightarrow> nat" where
  "numericID s = foldl (\<lambda>n c. 10 * n + (of_char c - of_char (CHR ''0''))) 0 s"

section \<open>The notifier (library/notifier/notify.go)\<close>

record Slack =
  client :: string

text \<open>\<open>NewSlacker\<close> leaves the process with status 1 when the access token is not set.\<close>

definition NewSlacker :: "world \<Rightarrow> crash + Slack" where
  "NewSlacker w =
     (case SLACK_ACCESS_TOKEN w of
        None \<Rightarrow> Inl (Exit 1)
      | Some token \<Rightarrow> Inr \<lparr>client = token\<rparr>)"

definition Notify :: "world \<Rightarrow> Slack \<Rightarrow> string \<Rightarrow> SlackArgs \<Rightarrow> error option" where
  "Notify w s msg slackArgs =
     (if PostMessage w slackArgs msg then None else Some PostMessageError)"

section \<open>The server (main.go)\<close>

record NotifierObj =
  notifier :: Slack
  notifyArgs :: SlackArgs

text \<open>
  \<open>templateData\<close>. The pointers \<open>Tweets\<close> and \<open>Cancel\<close> are nil (\<open>None\<close>) until they
  are set; a cancel function is named by the number of the context it cancels. The mutex is
  not modelled: handlers and loop steps are taken one at a time.
\<close>

record templateData =
  Started :: bool
  SchemeHostPort :: string
  SearchTerms :: "string list"
  Tweets :: "Tweets option"
  Cancel :: "nat option"

text \<open>
  The values \<open>startHandler\<close> puts into the context of the goroutine it starts; the
  interval is in seconds.
\<close>

record ctxValues =
  ctxID :: nat
  keyKeywords :: "string list"
  keyInterval :: nat
  keyNotifierObj :: "NotifierObj option"

text \<open>
  The state of the process: the template data, the database, the calls of \<open>Notify\<close> made
  so far (message and arguments, in order), the number of contexts created, the contexts
  cancelled, and the goroutines started with \<open>go start(ctx)\<close>.
\<close>

record state =
  tdata :: templateData
  db :: boltdb
  sent :: "(string \<times> SlackArgs) list"
  contexts :: nat
  cancelled :: "nat list"
  spawned :: "ctxValues list"

text \<open>\<open>fmt.Sprintf("%d", n)\<close>.\<close>

fun digits :: "nat \<Rightarrow> string" where
  "digits n = (if n < 10 then [char_of (48 + n)] else digits (n div 10) @ [char_of (48 + n mod 10)])"

definition Itoa :: "int \<Rightarrow> string" where
  "Itoa i = (if i < 0 then ''-'' @ digits (nat (- i)) else digits (nat i))"

definition NewTemplateData :: "world \<Rightarrow> boltdb \<Rightarrow> string \<Rightarrow> int \<Rightarrow> templateData" where
  "NewTemplateData w d host port =
     (let (st, err) = GetLatestSearchTerms w d
      in \<lparr>Started = False,
          SchemeHostPort = ''http://'' @ host @ '':'' @ Itoa port,
          SearchTerms = st,
          Tweets = None,
          Cancel = None\<rparr>)"

text \<open>The state when \<open>main\<close> starts to serve.\<close>

definition initialState :: "world \<Rightarrow> boltdb \<Rightarrow> string \<Rightarrow> int \<Rightarrow> state" where
  "initialState w d host port =
     \<lparr>tdata = NewTemplateData w d host port, db = d, sent = [],
      contexts = 0, cancelled = [], spawned = []\<rparr>"

datatype response = NoResponse | Write string | Error string nat

text \<open>Indexing a Go map gives the empty string for a missing key.\<close>

definition index :: "(string \<rightharpoonup> string) \<Rightarrow> string \<Rightarrow> string" where
  "index m k = (case m k of None \<Rightarrow> [] | Some v \<Rightarrow> v)"

text \<open>
  \<open>startHandler\<close>, given the method of the request and the map \<open>keyVal\<close> that decoding its
  body leaves (empty when the body does not decode).
\<close>

definition startHandler :: "world \<Rightarrow> string \<Rightarrow> (string \<rightharpoonup> string) \<Rightarrow> state \<Rightarrow> crash + response \<times> state" where
  "startHandler w method keyVal s =
     (if method = ''OPTIONS'' then Inr (NoResponse, s)
      else if method = ''POST'' then
        (if Started (tdata s) then Inr (Error ''400 Subscription already started'' 400, s)
         else
           (let cancel = contexts s;
                s1 = s\<lparr>contexts := Suc (contexts s), tdata := (tdata s)\<lparr>Cancel := Some cancel\<rparr>\<rparr>;
                kwStr = index keyVal ''keywords'';
                kw = map (TrimSpace (trim_beyond w)) (Split kwStr (CHR '',''));
                slackChannel = index keyVal ''slackChannelID'';
                made = (if slackChannel \<noteq> []
                        then (case NewSlacker w of
                                Inl c \<Rightarrow> Inl c
                              | Inr sl \<Rightarrow>
                                  Inr (Some \<lparr>notifier = sl,
                                     notifyArgs = \<lparr>ChannelID = index keyVal ''slackChannelID'',
                                                   Attachment = None\<rparr>\<rparr>))
                        else Inr None)
            in case made of
                 Inl c \<Rightarrow> Inl c
               | Inr notifierObj \<Rightarrow>
                   Inr (Write ''Success: Started polling tweets'',
                        s1\<lparr>spawned := spawned s1 @
                           [\<lparr>ctxID = cancel, keyKeywords = kw, keyInterval = 180,
                             keyNotifierObj = notifierObj\<rparr>]\<rparr>)))
      else Inr (Error ''400 Only POST method is supported'' 400, s))"

text \<open>\<open>stopHandler\<close> calls the function \<open>tdata.Cancel\<close> points to.\<close>

definition stopHandler :: "string \<Rightarrow> state \<Rightarrow> crash + response \<times> state" where
  "stopHandler method s =
     (if method = ''OPTIONS'' then Inr (NoResponse, s)
      else if method = ''POST'' then
        (case Cancel (tdata s) of
           None \<Rightarrow> Inl NilPointerDereference
         | Some cancel \<Rightarrow>
             Inr (Write ''Success: Stopped polling tweets'', s\<lparr>cancelled := cancel # cancelled s\<rparr>))
      else Inr (Error ''400 Only POST method is supported'' 400, s))"

subsection \<open>The poll loop\<close>

text \<open>
  The loop over \<open>tweets.Data\<close> at the end of \<open>run\<close>: a tweet without \<open>text\<close> is skipped,
  the text of any other goes to \<open>notifierObj.notifier.Notify\<close>, whose result is dropped.
  \<open>notifierObj\<close> is a pointer, nil when no Slack channel was given.
\<close>

fun notifyAll :: "world \<Rightarrow> NotifierObj option \<Rightarrow> (string \<rightharpoonup> string) list \<Rightarrow>
    (string \<times> SlackArgs) list \<Rightarrow> crash + (string \<times> SlackArgs) list" where
  "notifyAll w notifierObj [] calls = Inr calls"
| "notifyAll w notifierObj (tweet # rest) calls =
     (case tweet ''text'' of
        None \<Rightarrow> notifyAll w notifierObj rest calls
      | Some msg \<Rightarrow>
          (case notifierObj of
             None \<Rightarrow> Inl NilPointerDereference
           | Some obj \<Rightarrow>
               (let err = Notify w (notifier obj) msg (notifyArgs obj)
                in notifyAll w notifierObj rest (calls @ [(msg, notifyArgs obj)]))))"

text \<open>The request as \<open>run\<close> prepares it: with \<open>since_id\<close> set when a cursor is read.\<close>

definition sinceStored :: "world \<Rightarrow> boltdb \<Rightarrow> Req \<Rightarrow> Req" where
  "sinceStored w d req =
     (let (id, err) = GetLatestTweetID w d
      in if err = None then SetSinceTweetID req id else req)"

text \<open>
  The closure \<open>run\<close>. \<open>tweets\<close> is the pointer \<open>Get\<close> returned, nil after an error;
  \<open>tweets.Data\<close> dereferences it.
\<close>

definition run :: "world \<Rightarrow> NotifierObj option \<Rightarrow> state \<times> Req \<Rightarrow> crash + state \<times> Req" where
  "run w notifierObj sr =
     (let (s, req) = sr;
          req1 = sinceStored w (db s) req;
          (tweets, req2) = Get w req1;
          (err, d') = StoreLatestTweetID w req2 (db s);
          s1 = s\<lparr>db := d',
                 tdata := (tdata s)\<lparr>Tweets := (case tweets of Inl e \<Rightarrow> None | Inr t \<Rightarrow> Some t)\<rparr>\<rparr>
      in case tweets of
           Inl e \<Rightarrow> Inl NilPointerDereference
         | Inr t \<Rightarrow>
             (case notifyAll w notifierObj (Data t) (sent s1) of
                Inl c \<Rightarrow> Inl c
              | Inr calls \<Rightarrow> Inr (s1\<lparr>sent := calls\<rparr>, req2)))"

text \<open>
  What the \<open>select\<close> of the loop receives: a tick of the timer, with the world as it is
  then, or the cancellation of the context.
\<close>

datatype event = Tick world | Done

text \<open>
  The \<open>for\<close> loop of \<open>start\<close> over the events it receives. A panic in the goroutine ends
  the process; after \<open>Done\<close> the goroutine has returned; when the events are used up the
  loop is waiting in \<open>select\<close>.
\<close>

fun pollLoop :: "NotifierObj option \<Rightarrow> event list \<Rightarrow> state \<times> Req \<Rightarrow> crash + state \<times> Req" where
  "pollLoop notifierObj [] sr = Inr sr"
| "pollLoop notifierObj (Tick w # evs) sr =
     (case run w notifierObj sr of
        Inl c \<Rightarrow> Inl c
      | Inr sr' \<Rightarrow> pollLoop notifierObj evs sr')"
| "pollLoop notifierObj (Done # evs) sr =
     Inr ((fst sr)\<lparr>tdata := (tdata (fst sr))\<lparr>Started := False\<rparr>\<rparr>, snd sr)"

definition start :: "world \<Rightarrow> ctxValues \<Rightarrow> event list \<Rightarrow> state \<Rightarrow> crash + state \<times> Req" where
  "start w ctx evs s =
     (let kw = keyKeywords ctx;
          notifierObj = keyNotifierObj ctx;
          s1 = s\<lparr>tdata := (tdata s)\<lparr>Started := True\<rparr>\<rparr>;
          req = NewReq [WithUsers [''markets''], WithKeywords (quote_beyond w) kw]
      in case run w notifierObj (s1, req) of
           Inl c \<Rightarrow> Inl c
         | Inr (s2, req2) \<Rightarrow>
             (let (err, d3) = StoreLatestSearchTerms w req2 (db s2);
                  (st, err') = GetLatestSearchTerms w d3;
                  s3 = s2\<lparr>db := d3, tdata := (tdata s2)\<lparr>SearchTerms := st\<rparr>\<rparr>
              in pollLoop notifierObj evs (s3, req2)))"

subsection \<open>A world to run the program in\<close>

text \<open>
  How \<open>encoding/json\<close> decodes an array of objects into the slice \<open>Data\<close>: the object
  at a place the backing array already holds is decoded into the map found there, which
  keeps its other keys; an object beyond the backing array gives a new map; the elements
  left over stay in the backing array; an empty array gives a new, empty slice.
\<close>

fun decodeInto :: "(string \<rightharpoonup> string) list \<Rightarrow> (string \<rightharpoonup> string) list \<Rightarrow> (string \<rightharpoonup> string) list" where
  "decodeInto held [] = []"
| "decodeInto [] (n # ns) = n # decodeInto [] ns"
| "decodeInto (h # hs) (n # ns) = (h ++ n) # decodeInto hs ns"

text \<open>
  Decoding a body of the form \<open>{"data":[...],"meta":{"newest_id":"..."}}\<close> into a value
  of \<open>Tweets\<close>: the fields the body does not name stay as they are.
\<close>

definition decodeTweets :: "(string \<rightharpoonup> string) list \<Rightarrow> string \<Rightarrow> Tweets \<Rightarrow> Tweets" where
  "decodeTweets objects newest t =
     t\<lparr>Data := decodeInto (Data t @ spare t) objects,
       spare := (if objects = [] then [] else drop (length objects) (Data t @ spare t)),
       Meta := (Meta t)\<lparr>NewestID := newest\<rparr>\<rparr>"

text \<open>
  A world for the examples: both tokens set, a transport that answers every request with
  one body, a decoder that knows two bodies (one with a tweet that has a text and one that
  has none, newest id 150; a later one with a single tweet without text, newest id 160)
  and takes every other body for invalid, and the database at hand. Every string of the
  examples is ASCII, so what the world gives for \<open>%q\<close> and \<open>strings.TrimSpace\<close> beyond
  ASCII is never read.
\<close>

definition sampleBody :: string where
  \<open>sampleBody = ''{"data":[{"text":"oil up"},{"id":"7"}],"meta":{"newest_id":"150"}}''\<close>

definition laterBody :: string where
  \<open>laterBody = ''{"data":[{"id":"8"}],"meta":{"newest_id":"160"}}''\<close>

definition sampleTweets :: Tweets where
  "sampleTweets =
     \<lparr>Data = [[''text'' \<mapsto> ''oil up''], [''id'' \<mapsto> ''7'']], spare = [],
      Meta = \<lparr>NewestID = ''150'', OldestID = [], ResultCount = 0, NextToken = []\<rparr>\<rparr>"

definition sampleWorld :: world where
  "sampleWorld =
     \<lparr>TWITTER_BEARER_TOKEN = Some ''bearer'',
      SLACK_ACCESS_TOKEN = Some ''xoxb'',
      http = (\<lambda>h e q t. Responds \<lparr>StatusCode = 200, Body = sampleBody, ReadError = False\<rparr>),
      json_valid = (\<lambda>b. b = sampleBody \<or> b = laterBody),
      json_decode = (\<lambda>b t.
         if b = sampleBody
         then decodeTweets [[''text'' \<mapsto> ''oil up''], [''id'' \<mapsto> ''7'']] ''150'' t
         else if b = laterBody then decodeTweets [[''id'' \<mapsto> ''8'']] ''160'' t
         else t),
      PostMessage = (\<lambda>a m. True),
      homedir_ok = True,
      db_open_ok = True,
      quote_beyond = (\<lambda>s. s),
      trim_beyond = (\<lambda>s. s)\<rparr>"

text \<open>The same world at a later tick, when the transport answers with the later body.\<close>

definition laterWorld :: world where
  "laterWorld = sampleWorld\<lparr>http := (\<lambda>h e q t.
      Responds \<lparr>StatusCode = 200, Body = laterBody, ReadError = False\<rparr>)\<rparr>"

text \<open>The same world with a transport that answers 503 with a body that is not JSON and is cut short.\<close>

definition brokenWorld :: world where
  "brokenWorld = sampleWorld\<lparr>http := (\<lambda>h e q t.
      Responds \<lparr>StatusCode = 503, Body = ''<html>Service Unavailable</html>'', ReadError = True\<rparr>)\<rparr>"

text \<open>
  The same world with a transport whose body is read in full before the read ends on an
  error (the connection breaks after the last byte of the document).
\<close>

definition cutWorld :: world where
  "cutWorld = sampleWorld\<lparr>http := (\<lambda>h e q t.
      Responds \<lparr>StatusCode = 200, Body = sampleBody, ReadError = True\<rparr>)\<rparr>"

text \<open>A request that holds the result of an earlier fetch.\<close>

definition heldTweets :: Tweets where
  "heldTweets =
     \<lparr>Data = [[''text'' \<mapsto> ''gold down'']], spare = [],
      Meta = \<lparr>NewestID = ''100'', OldestID = [], ResultCount = 0, NextToken = []\<rparr>\<rparr>"

definition sampleNotifier :: NotifierObj where
  "sampleNotifier =
     \<lparr>notifier = \<lparr>client = ''xoxb''\<rparr>,
      notifyArgs = \<lparr>ChannelID = ''C1'', Attachment = None\<rparr>\<rparr>"

text \<open>The state a first start command leaves, before its goroutine has run.\<close>

definition startedOnce :: state where
  "startedOnce =
     (case startHandler sampleWorld ''POST'' [''keywords'' \<mapsto> ''oil'', ''slackChannelID'' \<mapsto> ''C1'']
             (initialState sampleWorld Map.empty ''localhost'' 3000) of
        Inl c \<Rightarrow> initialState sampleWorld Map.empty ''localhost'' 3000
      | Inr (resp, s) \<Rightarrow> s)"

section \<open>The query builder\<close>

lemma Split_not_Nil: "Split w sep \<noteq> []"
  by (induction w) (auto split: list.splits)

lemma length_Split: "length (Split w sep) = Suc (length (filter (\<lambda>c. c = sep) w))"
proof (induction w)
  case Nil
  show ?case by simp
next
  case (Cons c cs)
  then show ?case using Split_not_Nil [of cs sep]
    by (cases "Split cs sep") auto
qed

lemma Split_more_than_one: "(length (Split w sep) > 1) = (sep \<in> set w)"
  by (simp add: length_Split filter_empty_conv)

lemma escapeKeyword_space:
  "escapeKeyword beyond w = (if CHR 0x20 \<in> set w then Quote beyond w else w)"
  by (simp only: escapeKeyword_def Split_more_than_one)

lemma fold_append_map: "fold (\<lambda>w acc. acc @ [f w]) ks acc0 = acc0 @ map f ks"
  by (induction ks arbitrary: acc0) simp_all

lemma keywordFilter_WithKeywords:
  "keywordFilter (WithKeywords beyond ks r)
     = map (\<lambda>w. if CHR 0x20 \<in> set w then Quote beyond w else w) ks"
  by (simp add: WithKeywords_def fold_append_map escapeKeyword_space)

lemma appendEscapedRune_plain:
  "0x20 \<le> (of_char c :: nat) \<Longrightarrow> (of_char c :: nat) < 0x7f \<Longrightarrow> c \<noteq> CHR 0x22 \<Longrightarrow> c \<noteq> CHR 0x5C \<Longrightarrow>
   appendEscapedRune c = [c]"
  by (simp add: appendEscapedRune_def)

lemma Quote_plain:
  assumes "\<forall>c\<in>set w. 0x20 \<le> (of_char c :: nat) \<and> of_char c < (0x7f :: nat)
             \<and> c \<noteq> CHR 0x22 \<and> c \<noteq> CHR 0x5C"
  shows "Quote beyond w = [CHR 0x22] @ w @ [CHR 0x22]"
proof -
  from assms have "concat (map appendEscapedRune w) = w"
    by (induction w) (simp_all add: appendEscapedRune_plain)
  moreover from assms have "list_all (\<lambda>c. (of_char c :: nat) < 0x7f) w"
    by (simp add: list_all_iff)
  ultimately show ?thesis by (simp add: Quote_def)
qed

lemma tweets_parseQuery [simp]: "tweets (parseQuery r) = tweets r"
  by (simp add: parseQuery_def setQueryParam_def Let_def)

lemma schemeHost_parseQuery [simp]: "schemeHost (parseQuery r) = schemeHost r"
  by (simp add: parseQuery_def setQueryParam_def Let_def)

lemma endpoint_parseQuery [simp]: "endpoint (parseQuery r) = endpoint r"
  by (simp add: parseQuery_def setQueryParam_def Let_def)

lemma Get_responds:
  assumes "TWITTER_BEARER_TOKEN w = Some token"
    and "http w (schemeHost r) (endpoint r) (queryParams (parseQuery r)) token = Responds resp"
  shows "Get w r = (Inr (Unmarshal w (Body resp) (tweets r)),
                    (parseQuery r)\<lparr>tweets := Unmarshal w (Body resp) (tweets r)\<rparr>)"
  using assms by (simp add: Get_def Let_def)

lemma decode_sampleBody: "Unmarshal sampleWorld sampleBody zeroTweets = sampleTweets"
  by (simp add: Unmarshal_def sampleWorld_def sampleTweets_def zeroTweets_def decodeTweets_def)

lemma Get_sampleWorld:
  "tweets r = zeroTweets \<Longrightarrow> fst (Get sampleWorld r) = Inr sampleTweets"
proof -
  assume z: "tweets r = zeroTweets"
  have t: "TWITTER_BEARER_TOKEN sampleWorld = Some ''bearer''"
    by (simp add: sampleWorld_def)
  have h: "http sampleWorld (schemeHost r) (endpoint r) (queryParams (parseQuery r)) ''bearer''
             = Responds \<lparr>StatusCode = 200, Body = sampleBody, ReadError = False\<rparr>"
    by (simp add: sampleWorld_def)
  show ?thesis by (simp add: Get_responds [OF t h] z decode_sampleBody)
qed

text \<open>
  Claim C4. With two users the query is \<open>(oil)(from:markets OR business)\<close>: \<open>parseQuery\<close>
  writes \<open>from:\<close> once, before the joined list, so the second user stands in the
  disjunction without the prefix and \<open>from:business\<close> does not occur in the query.
\<close>

theorem second_user_is_not_prefixed:
  "queryOf (parseQuery (NewReq [WithUsers [''markets'', ''business''], WithKeywords beyond [''oil'']]))
     = Some [''(oil)(from:markets OR business)'']
   \<and> \<not> Contains ''(oil)(from:markets OR business)'' ''from:business''"
  by (simp add: queryOf_def parseQuery_def NewReq_def WithUsers_def WithKeywords_def
        escapeKeyword_def setQueryParam_def)

text \<open>
  Claim C5, as the code has it. Building the query has no error result: \<open>WithKeywords\<close>
  and \<open>parseQuery\<close> return no error and check nothing, and \<open>Get\<close> does not fail on an
  empty keyword list. For a request whose keyword list is empty, when the token is set and
  the transport answers, \<open>Get\<close> returns the decoded response and no error.
\<close>

theorem empty_keyword_list_is_not_rejected:
  assumes "TWITTER_BEARER_TOKEN w = Some token"
    and "http w (schemeHost r) (endpoint r)
           (queryParams (parseQuery (WithKeywords beyond [] r))) token = Responds resp"
  shows "keywordFilter (WithKeywords beyond [] r) = []
         \<and> fst (Get w (WithKeywords beyond [] r)) = Inr (Unmarshal w (Body resp) (tweets r))"
proof -
  have "schemeHost (WithKeywords beyond [] r) = schemeHost r"
    "endpoint (WithKeywords beyond [] r) = endpoint r"
    "tweets (WithKeywords beyond [] r) = tweets r"
    "keywordFilter (WithKeywords beyond [] r) = []"
    by (simp_all add: WithKeywords_def)
  with assms show ?thesis
    using Get_responds [of w token "WithKeywords beyond [] r" resp] by simp
qed

theorem empty_keyword_list_is_not_rejected_witness:
  "TWITTER_BEARER_TOKEN sampleWorld = Some ''bearer''
   \<and> keywordFilter (WithKeywords (quote_beyond sampleWorld) [] (NewReq [WithUsers [''markets'']])) = []
   \<and> fst (Get sampleWorld (WithKeywords (quote_beyond sampleWorld) [] (NewReq [WithUsers [''markets'']])))
       = Inr sampleTweets"
proof -
  let ?r = "NewReq [WithUsers [''markets'']]"
  let ?b = "quote_beyond sampleWorld"
  have t: "TWITTER_BEARER_TOKEN sampleWorld = Some ''bearer''"
    by (simp add: sampleWorld_def)
  have h: "http sampleWorld (schemeHost ?r) (endpoint ?r)
             (queryParams (parseQuery (WithKeywords ?b [] ?r))) ''bearer''
           = Responds \<lparr>StatusCode = 200, Body = sampleBody, ReadError = False\<rparr>"
    by (simp add: sampleWorld_def)
  have z: "tweets ?r = zeroTweets"
    by (simp add: NewReq_def WithUsers_def setQueryParam_def)
  from empty_keyword_list_is_not_rejected [OF t h]
  show ?thesis using t by (simp add: z decode_sampleBody)
qed

text \<open>
  Claim C5, as it is stated, fails: for a request with the user \<open>markets\<close> and no keyword
  \<open>Get\<close> returns the decoded response, not an error.
\<close>

theorem empty_keyword_list_counterexample:
  "keywordFilter (NewReq [WithUsers [''markets''], WithKeywords (quote_beyond sampleWorld) []]) = []
   \<and> fst (Get sampleWorld (NewReq [WithUsers [''markets''], WithKeywords (quote_beyond sampleWorld) []]))
       = Inr sampleTweets"
proof -
  let ?r = "NewReq [WithUsers [''markets''], WithKeywords (quote_beyond sampleWorld) []]"
  have k: "keywordFilter ?r = []" and "tweets ?r = zeroTweets"
    by (simp_all add: NewReq_def WithUsers_def WithKeywords_def setQueryParam_def)
  then have "fst (Get sampleWorld ?r) = Inr sampleTweets"
    by (simp add: Get_sampleWorld)
  with k show ?thesis by simp
qed

text \<open>
  Claim C9, as the code has it. \<open>WithKeywords\<close> replaces a keyword by its \<open>%q\<close> form
  exactly when the keyword contains a space character (\<open>0x20\<close>), and keeps every other
  keyword; the \<open>%q\<close> form of a keyword of printable ASCII characters without double quote
  and backslash is the keyword between double quotes; and the keyword \<open>central bank\<close>
  with the user \<open>markets\<close> gives the query \<open>("central bank")(from:markets)\<close>.
\<close>

theorem keyword_with_space_is_quoted:
  \<open>keywordFilter (WithKeywords beyond ks r)
     = map (\<lambda>w. if CHR 0x20 \<in> set w then Quote beyond w else w) ks
   \<and> (\<forall>w. (\<forall>c\<in>set w. 0x20 \<le> (of_char c :: nat) \<and> of_char c < (0x7f :: nat)
              \<and> c \<noteq> CHR 0x22 \<and> c \<noteq> CHR 0x5C)
          \<longrightarrow> Quote beyond w = [CHR 0x22] @ w @ [CHR 0x22])
   \<and> queryOf (parseQuery (NewReq [WithUsers [''markets''], WithKeywords beyond [''central bank'']]))
       = Some [''("central bank")(from:markets)'']\<close>
proof (intro conjI allI impI)
  show "keywordFilter (WithKeywords beyond ks r)
          = map (\<lambda>w. if CHR 0x20 \<in> set w then Quote beyond w else w) ks"
    by (rule keywordFilter_WithKeywords)
next
  fix w
  assume "\<forall>c\<in>set w. 0x20 \<le> (of_char c :: nat) \<and> of_char c < (0x7f :: nat)
            \<and> c \<noteq> CHR 0x22 \<and> c \<noteq> CHR 0x5C"
  then show "Quote beyond w = [CHR 0x22] @ w @ [CHR 0x22]" by (rule Quote_plain)
next
  show \<open>queryOf (parseQuery (NewReq [WithUsers [''markets''], WithKeywords beyond [''central bank'']]))
       = Some [''("central bank")(from:markets)'']\<close>
    by (simp add: queryOf_def parseQuery_def NewReq_def WithUsers_def WithKeywords_def
          escapeKeyword_def Quote_def appendEscapedRune_def setQueryParam_def)
qed

theorem keyword_with_space_is_quoted_witness:
  \<open>keywordFilter (WithKeywords (quote_beyond sampleWorld) [''central bank'', ''oil''] (NewReq []))
     = [''"central bank"'', ''oil'']\<close>
proof -
  have p: "\<forall>c\<in>set ''central bank''. 0x20 \<le> (of_char c :: nat) \<and> of_char c < (0x7f :: nat)
              \<and> c \<noteq> CHR 0x22 \<and> c \<noteq> CHR 0x5C"
    by simp
  from keyword_with_space_is_quoted
         [of "quote_beyond sampleWorld" "[''central bank'', ''oil'']" "NewReq []"]
  have k: "keywordFilter (WithKeywords (quote_beyond sampleWorld) [''central bank'', ''oil''] (NewReq []))
             = [Quote (quote_beyond sampleWorld) ''central bank'', ''oil'']"
    and q: "Quote (quote_beyond sampleWorld) ''central bank''
             = [CHR 0x22] @ ''central bank'' @ [CHR 0x22]"
    using p by simp_all
  show ?thesis by (simp only: k q) simp
qed

text \<open>
  Claim C9, as it is stated, fails on a keyword whose white space is a tab: the keyword is
  kept without quotes and goes into the query as it is.
\<close>

theorem keyword_with_tab_counterexample:
  "keywordFilter (WithKeywords (quote_beyond sampleWorld) [''central'' @ [CHR 0x09] @ ''bank''] (NewReq []))
     = [''central'' @ [CHR 0x09] @ ''bank'']
   \<and> queryOf (parseQuery (NewReq [WithUsers [''markets''],
         WithKeywords (quote_beyond sampleWorld) [''central'' @ [CHR 0x09] @ ''bank'']]))
       = Some [''(central'' @ [CHR 0x09] @ ''bank)(from:markets)'']"
  by (simp add: queryOf_def parseQuery_def NewReq_def WithUsers_def WithKeywords_def
        escapeKeyword_def setQueryParam_def)

section \<open>The cursor\<close>

lemma StoreLatestTweetID_cursor:
  "homedir_ok w \<Longrightarrow> db_open_ok w \<Longrightarrow>
   cursor (snd (StoreLatestTweetID w (withNewestID r v) d)) = advance (cursor d) v"
  by (auto simp: StoreLatestTweetID_def withNewestID_def cursor_def advance_def
        CreateBucketIfNotExists_def Let_def max_def split: option.splits)

lemma setCursors_foldl:
  "homedir_ok w \<Longrightarrow> db_open_ok w \<Longrightarrow>
   cursor (setCursors w r vs d) = foldl advance (cursor d) vs"
  by (induction vs arbitrary: d) (simp_all add: StoreLatestTweetID_cursor)

lemma foldl_advance_Max:
  "foldl advance c vs =
     (if filter (\<lambda>v. v \<noteq> []) vs = [] \<and> c = None then None
      else Some (Max (set (filter (\<lambda>v. v \<noteq> []) vs) \<union> set_option c)))"
proof (induction vs arbitrary: c)
  case Nil
  show ?case by (cases c) simp_all
next
  case (Cons v vs)
  let ?A = "set (filter (\<lambda>v. v \<noteq> []) vs)"
  show ?case
  proof (cases "v = []")
    case True
    then show ?thesis using Cons.IH [of c] by (simp add: advance_def)
  next
    case False
    show ?thesis
    proof (cases c)
      case None
      then show ?thesis using False Cons.IH [of "Some v"] by (simp add: advance_def)
    next
      case (Some p)
      have fin: "finite ?A" by simp
      have m: "Max (insert (max p v) ?A) = Max (insert v (insert p ?A))"
      proof (cases "?A = {}")
        case True
        then show ?thesis by (simp add: max.commute)
      next
        case False
        then show ?thesis using fin by (simp add: max.assoc max.commute max.left_commute)
      qed
      have "foldl advance c (v # vs) = foldl advance (Some (max p v)) vs"
        using False Some by (simp add: advance_def)
      also have "\<dots> = Some (Max (?A \<union> set_option (Some (max p v))))"
        by (simp only: Cons.IH) simp
      also have "?A \<union> set_option (Some (max p v)) = insert (max p v) ?A"
        by simp
      also have "Max (insert (max p v) ?A) = Max (insert v (insert p ?A))"
        by (rule m)
      also have "insert v (insert p ?A) = set (filter (\<lambda>v. v \<noteq> []) (v # vs)) \<union> set_option c"
        using False Some by auto
      finally show ?thesis using False by simp
    qed
  qed
qed

lemma StoreLatestTweetID_noop:
  "homedir_ok w \<Longrightarrow> db_open_ok w \<Longrightarrow> cursor d = Some p \<Longrightarrow> v \<noteq> [] \<Longrightarrow> v \<le> p \<Longrightarrow>
   StoreLatestTweetID w (withNewestID r v) d = (None, d)"
  by (auto simp: StoreLatestTweetID_def withNewestID_def cursor_def
        CreateBucketIfNotExists_def Let_def map_upd_triv split: option.splits)

text \<open>
  Claim C1, as the code has it. When the home directory is found and the database opens,
  after calls of \<open>StoreLatestTweetID\<close> with the ids \<open>v1, ..., vn\<close> the stored cursor is
  the greatest, in the byte-wise lexicographic order of strings, of the non-empty ids and
  of the cursor stored before the calls (and there is no cursor when there is none of
  either); a call whose id is not empty and not greater than the stored cursor returns no
  error and leaves the database as it is; a call with an empty id returns an error and
  writes nothing.
\<close>

theorem cursor_is_lexicographic_maximum:
  assumes "homedir_ok w" and "db_open_ok w"
  shows "cursor (setCursors w r vs d) =
           (if filter (\<lambda>v. v \<noteq> []) vs = [] \<and> cursor d = None then None
            else Some (Max (set (filter (\<lambda>v. v \<noteq> []) vs) \<union> set_option (cursor d))))
         \<and> (\<forall>v p. cursor d = Some p \<and> v \<noteq> [] \<and> v \<le> p \<longrightarrow>
               StoreLatestTweetID w (withNewestID r v) d = (None, d))
         \<and> StoreLatestTweetID w (withNewestID r []) d = (Some InvalidID, d)"
proof (intro conjI allI impI)
  show "cursor (setCursors w r vs d) =
           (if filter (\<lambda>v. v \<noteq> []) vs = [] \<and> cursor d = None then None
            else Some (Max (set (filter (\<lambda>v. v \<noteq> []) vs) \<union> set_option (cursor d))))"
    using assms by (simp only: setCursors_foldl foldl_advance_Max)
next
  fix v p
  assume "cursor d = Some p \<and> v \<noteq> [] \<and> v \<le> p"
  then show "StoreLatestTweetID w (withNewestID r v) d = (None, d)"
    using assms by (simp add: StoreLatestTweetID_noop)
next
  show "StoreLatestTweetID w (withNewestID r []) d = (Some InvalidID, d)"
    using assms by (simp add: StoreLatestTweetID_def withNewestID_def)
qed

theorem cursor_is_lexicographic_maximum_witness:
  "homedir_ok sampleWorld \<and> db_open_ok sampleWorld
   \<and> cursor [''meta'' \<mapsto> [''newest'' \<mapsto> ''100'']] = Some ''100''
   \<and> cursor (setCursors sampleWorld (NewReq []) [''150'', ''120'']
               [''meta'' \<mapsto> [''newest'' \<mapsto> ''100'']])
       = Some ''150''
   \<and> StoreLatestTweetID sampleWorld (withNewestID (NewReq []) ''099'')
         [''meta'' \<mapsto> [''newest'' \<mapsto> ''100'']]
       = (None, [''meta'' \<mapsto> [''newest'' \<mapsto> ''100'']])"
proof -
  have h: "homedir_ok sampleWorld" "db_open_ok sampleWorld"
    by (simp_all add: sampleWorld_def)
  have c: "cursor [''meta'' \<mapsto> [''newest'' \<mapsto> ''100'']] = Some ''100''"
    by (simp add: cursor_def)
  have le: "(''099''::string) \<le> ''100''" by simp
  from cursor_is_lexicographic_maximum
         [OF h, of "NewReq []" "[''150'', ''120'']" "[''meta'' \<mapsto> [''newest'' \<mapsto> ''100'']]"]
  show ?thesis using h c le by simp
qed

text \<open>
  Claim C1, as it is stated, fails for ids of different lengths: after the ids \<open>9\<close> and
  \<open>10\<close> the stored cursor is \<open>9\<close>, the greater string, and not \<open>10\<close>, the greater
  number.
\<close>

theorem cursor_numeric_counterexample:
  "cursor (setCursors sampleWorld (NewReq []) [''9'', ''10''] Map.empty) = Some ''9''
   \<and> numericID ''9'' < numericID ''10''"
  by (simp add: StoreLatestTweetID_def withNewestID_def cursor_def sampleWorld_def
        CreateBucketIfNotExists_def numericID_def)

section \<open>The fetch\<close>

text \<open>
  Claim C10, as the code has it. Whatever response the transport delivers (any status code,
  any body, the body read to its end or not), \<open>Get\<close> returns no error; the value it
  returns is the one the request holds afterwards, which is what decoding the bytes that
  were read into the value held before gives. When these bytes are not valid JSON this is
  the value held before, and nothing but the query parameter has changed; when they are
  valid JSON it is the decoded value, also when reading the body ended on an error.
\<close>

theorem Get_returns_no_error_on_any_response:
  assumes "TWITTER_BEARER_TOKEN w = Some token"
    and "http w (schemeHost r) (endpoint r) (queryParams (parseQuery r)) token = Responds resp"
  shows "fst (Get w r) = Inr (tweets (snd (Get w r)))
         \<and> fst (Get w r) = Inr (Unmarshal w (Body resp) (tweets r))
         \<and> (\<not> json_valid w (Body resp) \<longrightarrow> Get w r = (Inr (tweets r), parseQuery r))
         \<and> (json_valid w (Body resp) \<longrightarrow>
               fst (Get w r) = Inr (json_decode w (Body resp) (tweets r)))"
proof -
  have g: "Get w r = (Inr (Unmarshal w (Body resp) (tweets r)),
                      (parseQuery r)\<lparr>tweets := Unmarshal w (Body resp) (tweets r)\<rparr>)"
    using assms by (rule Get_responds)
  have "(parseQuery r)\<lparr>tweets := tweets (parseQuery r)\<rparr> = parseQuery r"
    by simp
  then have "(parseQuery r)\<lparr>tweets := tweets r\<rparr> = parseQuery r"
    by (simp only: tweets_parseQuery)
  then show ?thesis by (simp add: g Unmarshal_def)
qed

theorem Get_returns_no_error_on_any_response_witness:
  "TWITTER_BEARER_TOKEN brokenWorld = Some ''bearer''
   \<and> \<not> json_valid brokenWorld ''<html>Service Unavailable</html>''
   \<and> fst (Get brokenWorld ((NewReq [])\<lparr>tweets := sampleTweets\<rparr>)) = Inr sampleTweets"
proof -
  let ?r = "(NewReq [])\<lparr>tweets := sampleTweets\<rparr>"
  let ?resp = "\<lparr>StatusCode = 503, Body = ''<html>Service Unavailable</html>'', ReadError = True\<rparr>"
  have t: "TWITTER_BEARER_TOKEN brokenWorld = Some ''bearer''"
    by (simp add: brokenWorld_def sampleWorld_def)
  have h: "http brokenWorld (schemeHost ?r) (endpoint ?r) (queryParams (parseQuery ?r)) ''bearer''
             = Responds ?resp"
    by (simp add: brokenWorld_def)
  have v: "\<not> json_valid brokenWorld (Body ?resp)"
    by (simp add: brokenWorld_def sampleWorld_def sampleBody_def laterBody_def)
  from Get_returns_no_error_on_any_response [OF t h] v
  have "Get brokenWorld ?r = (Inr (tweets ?r), parseQuery ?r)" by blast
  then show ?thesis using t v by simp
qed

text \<open>
  Claim C10, as it is stated, fails when reading the body ends on an error after bytes that
  are valid JSON: the request held a result with newest id 100, and \<open>Get\<close> returns the
  decoded response, with newest id 150, not the value held before.
\<close>

theorem read_failure_counterexample:
  "http cutWorld (schemeHost ((NewReq [])\<lparr>tweets := heldTweets\<rparr>))
      (endpoint ((NewReq [])\<lparr>tweets := heldTweets\<rparr>))
      (queryParams (parseQuery ((NewReq [])\<lparr>tweets := heldTweets\<rparr>))) ''bearer''
     = Responds \<lparr>StatusCode = 200, Body = sampleBody, ReadError = True\<rparr>
   \<and> NewestID (Meta (tweets ((NewReq [])\<lparr>tweets := heldTweets\<rparr>))) = ''100''
   \<and> (case fst (Get cutWorld ((NewReq [])\<lparr>tweets := heldTweets\<rparr>)) of
         Inl e \<Rightarrow> []
       | Inr t \<Rightarrow> NewestID (Meta t)) = ''150''"
proof -
  let ?r = "(NewReq [])\<lparr>tweets := heldTweets\<rparr>"
  have t: "TWITTER_BEARER_TOKEN cutWorld = Some ''bearer''"
    by (simp add: cutWorld_def sampleWorld_def)
  have h: "http cutWorld (schemeHost ?r) (endpoint ?r) (queryParams (parseQuery ?r)) ''bearer''
             = Responds \<lparr>StatusCode = 200, Body = sampleBody, ReadError = True\<rparr>"
    by (simp add: cutWorld_def)
  have u: "NewestID (Meta (Unmarshal cutWorld sampleBody heldTweets)) = ''150''"
    by (simp add: Unmarshal_def cutWorld_def sampleWorld_def decodeTweets_def)
  have "fst (Get cutWorld ?r) = Inr (Unmarshal cutWorld sampleBody (tweets ?r))"
    by (simp add: Get_responds [OF t h])
  then have g: "fst (Get cutWorld ?r) = Inr (Unmarshal cutWorld sampleBody heldTweets)"
    by simp
  have n: "NewestID (Meta (tweets ?r)) = ''100''"
    by (simp add: heldTweets_def)
  show ?thesis by (simp only: h g n u sum.case)
qed

section \<open>The poll loop\<close>

lemma Get_no_token:
  "TWITTER_BEARER_TOKEN w = None \<Longrightarrow> Get w r = (Inl AuthenticationError, r)"
  by (simp add: Get_def)

lemma Get_DoFails:
  "TWITTER_BEARER_TOKEN w = Some token \<Longrightarrow>
   http w (schemeHost (parseQuery r)) (endpoint (parseQuery r)) (queryParams (parseQuery r)) token
     = DoFails \<Longrightarrow>
   Get w r = (Inl TransportError, parseQuery r)"
  by (simp add: Get_def Let_def)

lemma run_Get_error:
  assumes "fst (Get w (sinceStored w (db s) r)) = Inl e"
  shows "run w n (s, r) = Inl NilPointerDereference"
proof -
  obtain res r2 where g: "Get w (sinceStored w (db s) r) = (res, r2)"
    by (cases "Get w (sinceStored w (db s) r)")
  with assms have "res = Inl e" by simp
  with g show ?thesis by (simp add: run_def Let_def split: prod.splits)
qed

lemma run_Get_ok:
  "Get w (sinceStored w (db s) r) = (Inr t, r2) \<Longrightarrow>
   run w n (s, r) =
     (case notifyAll w n (Data t) (sent s) of
        Inl c \<Rightarrow> Inl c
      | Inr calls \<Rightarrow>
          Inr (s\<lparr>db := snd (StoreLatestTweetID w r2 (db s)),
                 tdata := (tdata s)\<lparr>Tweets := Some t\<rparr>, sent := calls\<rparr>, r2))"
  by (auto simp: run_def Let_def split: prod.splits sum.splits)

lemma tweets_sinceStored [simp]: "tweets (sinceStored w d r) = tweets r"
  by (simp add: sinceStored_def SetSinceTweetID_def split: prod.splits)

lemma tweets_NewReq_filters [simp]:
  "tweets (NewReq [WithUsers us, WithKeywords beyond ks]) = zeroTweets"
  by (simp add: NewReq_def WithUsers_def WithKeywords_def setQueryParam_def Let_def)

lemma NewTemplateData_Started [simp]: "Started (NewTemplateData w d host port) = False"
  by (simp add: NewTemplateData_def split: prod.splits)

lemma NewTemplateData_Cancel [simp]: "Cancel (NewTemplateData w d host port) = None"
  by (simp add: NewTemplateData_def split: prod.splits)

lemma notifyAll_Some:
  "notifyAll w (Some obj) ds calls =
     Inr (calls @ map (\<lambda>m. (m, notifyArgs obj)) (List.map_filter (\<lambda>tweet. tweet ''text'') ds))"
  by (induction ds arbitrary: calls) (simp_all add: List.map_filter_simps split: option.splits)

text \<open>
  With a notifier, a tick whose fetch succeeds calls \<open>Notify\<close> with the texts of the
  tweets the request holds after the fetch, in their order.
\<close>

lemma run_notifies_held_texts:
  assumes "Get w (sinceStored w (db s) req) = (Inr t, req2)"
  shows "run w (Some obj) (s, req) =
           Inr (s\<lparr>db := snd (StoreLatestTweetID w req2 (db s)),
                  tdata := (tdata s)\<lparr>Tweets := Some t\<rparr>,
                  sent := sent s @ map (\<lambda>m. (m, notifyArgs obj))
                                    (List.map_filter (\<lambda>tweet. tweet ''text'') (Data t))\<rparr>, req2)"
  using assms by (simp add: run_Get_ok notifyAll_Some)

text \<open>
  Claim C2. A failed fetch ends the process: when the bearer token is not set, or when the
  transport fails, \<open>Get\<close> returns nil with the error, \<open>run\<close> logs the error and then
  reads \<open>tweets.Data\<close> through the nil pointer, and the panic ends the loop at that tick.
\<close>

theorem failed_fetch_crashes_the_loop:
  "run (w\<lparr>TWITTER_BEARER_TOKEN := None\<rparr>) n (s, r) = Inl NilPointerDereference
   \<and> run (w\<lparr>TWITTER_BEARER_TOKEN := Some token, http := (\<lambda>h e q t. DoFails)\<rparr>) n (s, r)
       = Inl NilPointerDereference
   \<and> pollLoop n (Tick (w\<lparr>TWITTER_BEARER_TOKEN := Some token, http := (\<lambda>h e q t. DoFails)\<rparr>) # evs)
         (s, r)
       = Inl NilPointerDereference"
proof -
  let ?w1 = "w\<lparr>TWITTER_BEARER_TOKEN := None\<rparr>"
  let ?w2 = "w\<lparr>TWITTER_BEARER_TOKEN := Some token, http := (\<lambda>h e q t. DoFails)\<rparr>"
  have "fst (Get ?w1 (sinceStored ?w1 (db s) r)) = Inl AuthenticationError"
    by (simp add: Get_no_token)
  then have a: "run ?w1 n (s, r) = Inl NilPointerDereference"
    by (rule run_Get_error)
  have "fst (Get ?w2 (sinceStored ?w2 (db s) r)) = Inl TransportError"
    by (simp add: Get_DoFails)
  then have b: "run ?w2 n (s, r) = Inl NilPointerDereference"
    by (rule run_Get_error)
  show ?thesis using a b by simp
qed

text \<open>
  Claim C3. A start command without \<open>slackChannelID\<close> starts the loop with a nil
  \<open>notifierObj\<close>; the first fetched tweet that has a \<open>text\<close> then makes the loop read
  \<open>notifierObj.notifier\<close> through the nil pointer, and the process ends with a panic.
\<close>

theorem no_sink_crashes_on_text:
  "(case startHandler sampleWorld ''POST'' [''keywords'' \<mapsto> ''oil'']
           (initialState sampleWorld Map.empty ''localhost'' 3000) of
      Inl c \<Rightarrow> False
    | Inr (resp, s) \<Rightarrow> map keyNotifierObj (spawned s) = [None])
   \<and> notifyAll w None (tweet(''text'' \<mapsto> msg) # rest) calls = Inl NilPointerDereference
   \<and> start sampleWorld
        \<lparr>ctxID = 0, keyKeywords = [''oil''], keyInterval = 180, keyNotifierObj = None\<rparr>
        evs (initialState sampleWorld Map.empty ''localhost'' 3000)
       = Inl NilPointerDereference"
proof (intro conjI)
  show "(case startHandler sampleWorld ''POST'' [''keywords'' \<mapsto> ''oil'']
           (initialState sampleWorld Map.empty ''localhost'' 3000) of
      Inl c \<Rightarrow> False
    | Inr (resp, s) \<Rightarrow> map keyNotifierObj (spawned s) = [None])"
    by (simp add: startHandler_def initialState_def index_def Let_def)
next
  show "notifyAll w None (tweet(''text'' \<mapsto> msg) # rest) calls = Inl NilPointerDereference"
    by simp
next
  let ?s = "initialState sampleWorld Map.empty ''localhost'' 3000"
  let ?s1 = "?s\<lparr>tdata := (tdata ?s)\<lparr>Started := True\<rparr>\<rparr>"
  let ?r = "NewReq [WithUsers [''markets''], WithKeywords (quote_beyond sampleWorld) [''oil'']]"
  have "fst (Get sampleWorld (sinceStored sampleWorld (db ?s1) ?r)) = Inr sampleTweets"
    by (simp add: Get_sampleWorld)
  then obtain r2
    where "Get sampleWorld (sinceStored sampleWorld (db ?s1) ?r) = (Inr sampleTweets, r2)"
    by (cases "Get sampleWorld (sinceStored sampleWorld (db ?s1) ?r)") simp
  then have "run sampleWorld None (?s1, ?r) = Inl NilPointerDereference"
    by (simp add: run_Get_ok sampleTweets_def)
  then show "start sampleWorld
        \<lparr>ctxID = 0, keyKeywords = [''oil''], keyInterval = 180, keyNotifierObj = None\<rparr>
        evs ?s = Inl NilPointerDereference"
    by (simp add: start_def Let_def)
qed

lemma decode_laterBody_fresh:
  "map (\<lambda>tweet. tweet ''text'') (Data (Unmarshal laterWorld laterBody zeroTweets)) = [None]"
  by (simp add: Unmarshal_def laterWorld_def sampleWorld_def decodeTweets_def zeroTweets_def
        laterBody_def sampleBody_def)

lemma decode_laterBody_held:
  "map (\<lambda>tweet. tweet ''text'') (Data (Unmarshal laterWorld laterBody sampleTweets))
     = [Some ''oil up'']"
  by (simp add: Unmarshal_def laterWorld_def sampleWorld_def decodeTweets_def sampleTweets_def
        laterBody_def sampleBody_def)

lemma Get_laterWorld:
  "fst (Get laterWorld r) = Inr (Unmarshal laterWorld laterBody (tweets r))"
proof -
  have t: "TWITTER_BEARER_TOKEN laterWorld = Some ''bearer''"
    by (simp add: laterWorld_def sampleWorld_def)
  have h: "http laterWorld (schemeHost r) (endpoint r) (queryParams (parseQuery r)) ''bearer''
             = Responds \<lparr>StatusCode = 200, Body = laterBody, ReadError = False\<rparr>"
    by (simp add: laterWorld_def)
  show ?thesis by (simp add: Get_responds [OF t h])
qed

lemma Get_holds_result: "Get w r = (Inr t, r2) \<Longrightarrow> tweets r2 = t"
  by (auto simp: Get_def Let_def split: option.splits http_outcome.splits)

text \<open>
  Claim C6. The request of the loop is made once and \<open>json.Unmarshal\<close> decodes every
  response into the result the request already holds. The first fetch brings a tweet with
  the text \<open>oil up\<close> and a tweet without text, and \<open>oil up\<close> is notified. The fetch
  of the next tick brings one tweet, which has no text; it is decoded into the map of the
  first tweet of the fetch before, which keeps its text, and \<open>oil up\<close> is notified again.
\<close>

theorem stale_text_is_notified:
  "map (\<lambda>tweet. tweet ''text'') (Data (Unmarshal laterWorld laterBody zeroTweets)) = [None]
   \<and> (case start sampleWorld
              \<lparr>ctxID = 0, keyKeywords = [''oil''], keyInterval = 180,
               keyNotifierObj = Some sampleNotifier\<rparr>
              [Tick laterWorld] (initialState sampleWorld Map.empty ''localhost'' 3000) of
         Inl c \<Rightarrow> False
       | Inr (s, r) \<Rightarrow>
           map fst (sent s) = [''oil up'', ''oil up'']
           \<and> map (\<lambda>tweet. tweet ''text'') (Data (tweets r)) = [Some ''oil up''])"
proof -
  let ?s = "initialState sampleWorld Map.empty ''localhost'' 3000"
  let ?s1 = "?s\<lparr>tdata := (tdata ?s)\<lparr>Started := True\<rparr>\<rparr>"
  let ?r = "NewReq [WithUsers [''markets''], WithKeywords (quote_beyond sampleWorld) [''oil'']]"
  let ?ctx = "\<lparr>ctxID = 0, keyKeywords = [''oil''], keyInterval = 180,
               keyNotifierObj = Some sampleNotifier\<rparr>"
  have "fst (Get sampleWorld (sinceStored sampleWorld (db ?s1) ?r)) = Inr sampleTweets"
    by (simp add: Get_sampleWorld)
  then obtain r2
    where g1: "Get sampleWorld (sinceStored sampleWorld (db ?s1) ?r) = (Inr sampleTweets, r2)"
    by (cases "Get sampleWorld (sinceStored sampleWorld (db ?s1) ?r)") simp
  have tr2: "tweets r2 = sampleTweets"
    using g1 by (rule Get_holds_result)
  define s2 where "s2 = ?s1\<lparr>db := snd (StoreLatestTweetID sampleWorld r2 (db ?s1)),
                  tdata := (tdata ?s1)\<lparr>Tweets := Some sampleTweets\<rparr>,
                  sent := sent ?s1 @ map (\<lambda>m. (m, notifyArgs sampleNotifier))
                                    (List.map_filter (\<lambda>tweet. tweet ''text'') (Data sampleTweets))\<rparr>"
  have run1: "run sampleWorld (Some sampleNotifier) (?s1, ?r) = Inr (s2, r2)"
    unfolding s2_def by (rule run_notifies_held_texts [OF g1])
  have sent2: "map fst (sent s2) = [''oil up'']"
    by (simp add: s2_def initialState_def sampleTweets_def List.map_filter_simps)
  define d3 where "d3 = snd (StoreLatestSearchTerms sampleWorld r2 (db s2))"
  define s3 where "s3 = s2\<lparr>db := d3,
      tdata := (tdata s2)\<lparr>SearchTerms := fst (GetLatestSearchTerms sampleWorld d3)\<rparr>\<rparr>"
  have sent3: "map fst (sent s3) = [''oil up'']"
    by (simp add: s3_def sent2)
  have st: "start sampleWorld ?ctx [Tick laterWorld] ?s
              = pollLoop (Some sampleNotifier) [Tick laterWorld] (s3, r2)"
    by (simp add: start_def Let_def run1 s3_def d3_def split: prod.splits)
  let ?q2 = "sinceStored laterWorld (db s3) r2"
  have "fst (Get laterWorld ?q2) = Inr (Unmarshal laterWorld laterBody sampleTweets)"
    by (simp add: Get_laterWorld tr2)
  then obtain r3
    where g2: "Get laterWorld ?q2 = (Inr (Unmarshal laterWorld laterBody sampleTweets), r3)"
    by (cases "Get laterWorld ?q2") simp
  have tr3: "tweets r3 = Unmarshal laterWorld laterBody sampleTweets"
    using g2 by (rule Get_holds_result)
  have texts: "List.map_filter (\<lambda>tweet. tweet ''text'')
                 (Data (Unmarshal laterWorld laterBody sampleTweets)) = [''oil up'']"
    by (simp add: Unmarshal_def laterWorld_def sampleWorld_def decodeTweets_def sampleTweets_def
          laterBody_def sampleBody_def List.map_filter_simps)
  have run2: "run laterWorld (Some sampleNotifier) (s3, r2) =
      Inr (s3\<lparr>db := snd (StoreLatestTweetID laterWorld r3 (db s3)),
              tdata := (tdata s3)\<lparr>Tweets := Some (Unmarshal laterWorld laterBody sampleTweets)\<rparr>,
              sent := sent s3 @ map (\<lambda>m. (m, notifyArgs sampleNotifier))
                 (List.map_filter (\<lambda>tweet. tweet ''text'')
                    (Data (Unmarshal laterWorld laterBody sampleTweets)))\<rparr>, r3)"
    by (rule run_notifies_held_texts [OF g2])
  show ?thesis
    by (simp add: st run2 texts sent3 tr3 decode_laterBody_fresh decode_laterBody_held)
qed

section \<open>Start and stop\<close>

lemma startHandler_when_Started:
  "Started (tdata s) \<Longrightarrow>
   startHandler w ''POST'' keyVal s = Inr (Error ''400 Subscription already started'' 400, s)"
  by (simp add: startHandler_def)

lemma startHandler_keeps_Started:
  "startHandler w method keyVal s = Inr (resp, s') \<Longrightarrow> Started (tdata s') = Started (tdata s)"
  by (auto simp: startHandler_def Let_def split: if_splits sum.splits)

text \<open>
  Claim C7. \<open>startHandler\<close> does not set \<open>Started\<close>; the goroutine it starts does. In the
  state a first start command leaves, with its loop started and its cancel function
  stored, the flag is not set yet, and a second start command is answered with success,
  stores another cancel function over the first and starts a second loop.
\<close>

theorem second_start_is_accepted:
  "\<not> Started (tdata startedOnce)
   \<and> Cancel (tdata startedOnce) = Some 0
   \<and> map keyKeywords (spawned startedOnce) = [[''oil'']]
   \<and> (case startHandler sampleWorld ''POST'' [''keywords'' \<mapsto> ''gold''] startedOnce of
         Inl c \<Rightarrow> False
       | Inr (resp, s) \<Rightarrow>
           resp = Write ''Success: Started polling tweets''
           \<and> Cancel (tdata s) = Some 1
           \<and> map keyKeywords (spawned s) = [[''oil''], [''gold'']])"
  by (simp add: startedOnce_def startHandler_def initialState_def index_def Let_def
        NewSlacker_def sampleWorld_def TrimSpace_def asciiSpace_def)

text \<open>
  Claim C8. In the state the server starts in, where no start command has set
  \<open>tdata.Cancel\<close>, a POST to \<open>/stop\<close> calls through the nil pointer: the handler panics
  and writes no response.
\<close>

theorem stop_without_start_crashes:
  "stopHandler ''POST'' (initialState w d host port) = Inl NilPointerDereference"
  by (simp add: stopHandler_def initialState_def)

end
